theory Spec2Isabelle
  imports Main "HOL-Library.Sublist"
begin

section \<open>The GitLab API driver of \<^verbatim>\<open>src/api-driver.js\<close>\<close>

text \<open>
  The driver is one JavaScript class, \<^verbatim>\<open>GitlabApiDriver\<close>: a constructor that
  normalises the base URL, a pure URL builder (\<^verbatim>\<open>getProjectUrl\<close>) and eight
  asynchronous methods that each build a URL, hand a request to the HTTP library and map
  the outcome to a value or to an exception.

  Conventions of the embedding:
  \<^item> a JavaScript string is a \<^typ>\<open>string\<close>, read as the UTF-8 bytes of a well-formed
    string; lone surrogates, on which \<^verbatim>\<open>encodeURIComponent\<close> throws, have no
    representation;
  \<^item> a dynamically typed argument is a \<open>jsval\<close>; numbers are integers, rendered in
    decimal (no fractions, no exponent notation);
  \<^item> an exception is the left summand of the result, \<open>error + 'a\<close>;
  \<^item> the object \<^verbatim>\<open>this\<close>, the requests handed to the HTTP library and the lines
    written by \<^verbatim>\<open>console.log\<close> are an explicit state, returned by every method;
  \<^item> an \<^verbatim>\<open>async\<close> method that rejects and a function that throws are the same
    \<open>Inl\<close>: the model runs each method to completion.
\<close>

subsection \<open>JavaScript values and template literals\<close>

datatype jsval =
    Undefined
  | Null
  | Boolean bool
  | Number int
  | String string
  | Object "(string \<times> jsval) list"

definition digit_char :: "nat \<Rightarrow> char" where
  "digit_char d = ''0123456789'' ! d"

fun digits :: "nat \<Rightarrow> string" where
  "digits n = (if n < 10 then [digit_char n] else digits (n div 10) @ [digit_char (n mod 10)])"

definition show_int :: "int \<Rightarrow> string" where
  "show_int i = (if i < 0 then CHR ''-'' # digits (nat (- i)) else digits (nat i))"

text \<open>What \<^verbatim>\<open>`${v}`\<close> renders inside a template literal.\<close>

fun to_string :: "jsval \<Rightarrow> string" where
  "to_string Undefined = ''undefined''"
| "to_string Null = ''null''"
| "to_string (Boolean b) = (if b then ''true'' else ''false'')"
| "to_string (Number n) = show_int n"
| "to_string (String s) = s"
| "to_string (Object fs) = ''[object Object]''"

definition quoted :: "string \<Rightarrow> string" where
  "quoted s = CHR 0x27 # s @ [CHR 0x27]"

subsection \<open>Built-in string functions\<close>

text \<open>\<^verbatim>\<open>s.replace(pat, rep)\<close> with a string pattern: the first occurrence only.\<close>

fun replace :: "string \<Rightarrow> string \<Rightarrow> string \<Rightarrow> string" where
  "replace pat rep [] = (if pat = [] then rep else [])"
| "replace pat rep (c # cs) =
     (if prefix pat (c # cs) then rep @ drop (length pat) (c # cs)
      else c # replace pat rep cs)"

definition hex_digit :: "nat \<Rightarrow> char" where
  "hex_digit n = ''0123456789ABCDEF'' ! n"

text \<open>The characters \<^verbatim>\<open>encodeURIComponent\<close> leaves alone: letters, digits and
  \<^verbatim>\<open>- _ . ! ~ * ' ( )\<close>.\<close>

definition unreserved :: "char \<Rightarrow> bool" where
  "unreserved c =
     (let n = (of_char c :: nat) in
        (65 \<le> n \<and> n \<le> 90) \<or> (97 \<le> n \<and> n \<le> 122) \<or> (48 \<le> n \<and> n \<le> 57)
        \<or> c \<in> set ''-_.!~*'()'')"

definition encode_char :: "char \<Rightarrow> string" where
  "encode_char c =
     (if unreserved c then [c]
      else [CHR ''%'', hex_digit ((of_char c :: nat) div 16), hex_digit ((of_char c :: nat) mod 16)])"

definition encodeURIComponent :: "string \<Rightarrow> string" where
  "encodeURIComponent s = concat (map encode_char s)"

subsection \<open>The helpers imported from \<^verbatim>\<open>./util.js\<close>\<close>

text \<open>
  \<^verbatim>\<open>util.js\<close> is not among the sources. Its four exports are modelled from the
  specification.
\<close>

definition trimTailingSlash :: "string \<Rightarrow> string" where
  \<comment> \<open>Modelled from the spec: \<^verbatim>\<open>trimTailingSlash\<close> of \<^verbatim>\<open>util.js\<close> is missing;
      the specification asks for a base URL with ``no trailing slash''.\<close>
  "trimTailingSlash s = rev (dropWhile (\<lambda>c. c = CHR ''/'') (rev s))"

definition trimLeadingSlash :: "string \<Rightarrow> string" where
  \<comment> \<open>Modelled from the spec: \<^verbatim>\<open>trimLeadingSlash\<close> of \<^verbatim>\<open>util.js\<close> is missing;
      the counterpart of \<open>trimTailingSlash\<close> at the front of the string.\<close>
  "trimLeadingSlash s = dropWhile (\<lambda>c. c = CHR ''/'') s"

definition trimSlashes :: "string \<Rightarrow> string" where
  \<comment> \<open>Modelled from the spec: \<^verbatim>\<open>trimSlashes\<close> of \<^verbatim>\<open>util.js\<close> is missing;
      ``leading/trailing slashes stripped''.\<close>
  "trimSlashes s = trimLeadingSlash (trimTailingSlash s)"

record resolved =
  ident_id :: "int option"
  ident_path :: "string option"

definition is_digit :: "char \<Rightarrow> bool" where
  "is_digit c = (48 \<le> (of_char c :: nat) \<and> (of_char c :: nat) \<le> 57)"

definition integer_valued :: "string \<Rightarrow> bool" where
  "integer_valued s =
     (case s of
        [] \<Rightarrow> False
      | c # cs \<Rightarrow> if c = CHR ''-'' then cs \<noteq> [] \<and> list_all is_digit cs
                 else list_all is_digit (c # cs))"

definition parse_nat :: "string \<Rightarrow> nat" where
  "parse_nat s = foldl (\<lambda>acc c. 10 * acc + ((of_char c :: nat) - 48)) 0 s"

definition parse_int :: "string \<Rightarrow> int" where
  "parse_int s =
     (case s of
        [] \<Rightarrow> 0
      | c # cs \<Rightarrow> if c = CHR ''-'' then - int (parse_nat cs) else int (parse_nat (c # cs)))"

definition resolveProjectIdentifier :: "string \<Rightarrow> jsval \<Rightarrow> resolved" where
  \<comment> \<open>Modelled from the spec: \<^verbatim>\<open>resolveProjectIdentifier\<close> of \<^verbatim>\<open>util.js\<close> is
      missing. Section 4.1: an integer, or an integer-valued string, gives the numeric-id
      form; any other non-empty string gives the path form, after a leading base URL is
      stripped and the slashes at both ends are trimmed; anything else gives neither.\<close>
  "resolveProjectIdentifier baseUrl identifier =
     (case identifier of
        Number n \<Rightarrow> \<lparr>ident_id = Some n, ident_path = None\<rparr>
      | String s \<Rightarrow>
          if integer_valued s then \<lparr>ident_id = Some (parse_int s), ident_path = None\<rparr>
          else if s \<noteq> [] then
            \<lparr>ident_id = None,
             ident_path = Some (trimSlashes (if prefix baseUrl s then drop (length baseUrl) s else s))\<rparr>
          else \<lparr>ident_id = None, ident_path = None\<rparr>
      | _ \<Rightarrow> \<lparr>ident_id = None, ident_path = None\<rparr>)"

subsection \<open>The HTTP library\<close>

text \<open>
  \<^verbatim>\<open>axios\<close> is an external library, used with its default settings (the only
  configuration passed is the header table). A request resolves with the response when
  the status is 2xx and is rejected otherwise; the rejection carries the response when the
  server answered and carries none when the connection failed. The server is a parameter
  of the model: a function from the requests seen so far and the current request to a
  reply.
\<close>

datatype http_method = GET | POST | PUT

record request =
  meth :: http_method
  url :: string
  headers :: "(string \<times> string) list"
  body :: "jsval option"

record response =
  status :: nat
  data :: jsval

datatype reply = HttpReply response | NetworkFailure

type_synonym backend = "request list \<Rightarrow> request \<Rightarrow> reply"

text \<open>The value \<^verbatim>\<open>e\<close> of a \<^verbatim>\<open>catch(e)\<close>; \<open>e_response\<close> is
  \<^verbatim>\<open>e.response\<close>, \<open>None\<close> for \<^verbatim>\<open>undefined\<close>.\<close>

record axios_error =
  e_response :: "response option"

record axios_config =
  cfg_headers :: "(string \<times> string) list"

subsection \<open>Exceptions\<close>

text \<open>
  \<open>InvalidIdentifier m\<close> is the plain \<^verbatim>\<open>Error\<close> with message \<open>m\<close> thrown by
  \<^verbatim>\<open>getProjectUrl\<close> (the specification's \<^verbatim>\<open>InvalidIdentifier\<close>).
  \<open>GitlabApiError m e\<close> is the class at the end of the file (the specification's
  \<^verbatim>\<open>ApiError\<close>): its message is \<open>m\<close> followed by the text the library gives the
  caught value \<open>e\<close>. \<open>TypeError\<close> is what reading a property of \<^verbatim>\<open>null\<close> or
  \<^verbatim>\<open>undefined\<close> throws.
\<close>

datatype error =
    InvalidIdentifier string
  | GitlabApiError string axios_error
  | TypeError

fun is_GitlabApiError :: "error \<Rightarrow> bool" where
  "is_GitlabApiError (GitlabApiError m e) = True"
| "is_GitlabApiError x = False"

fun is_InvalidIdentifier :: "error \<Rightarrow> bool" where
  "is_InvalidIdentifier (InvalidIdentifier m) = True"
| "is_InvalidIdentifier x = False"

text \<open>\<^verbatim>\<open>v.k\<close> for a property name \<open>k\<close>.\<close>

fun get_prop :: "jsval \<Rightarrow> string \<Rightarrow> error + jsval" where
  "get_prop Undefined k = Inl TypeError"
| "get_prop Null k = Inl TypeError"
| "get_prop (Object fs) k = (case map_of fs k of Some v \<Rightarrow> Inr v | None \<Rightarrow> Inr Undefined)"
| "get_prop v k = Inr Undefined"

subsection \<open>The driver object and the observable state\<close>

record GitlabApiDriver =
  VERBOSE :: bool
  BASE_URL :: string
  API_URL :: string
  AT :: string
  config :: axios_config

record state =
  driver :: GitlabApiDriver
  sent :: "request list"
  console :: "string list"

definition API_PATH :: string where
  "API_PATH = ''/api/v4''"

definition new_GitlabApiDriver :: "string \<Rightarrow> string \<Rightarrow> bool \<Rightarrow> GitlabApiDriver" where
  "new_GitlabApiDriver baseUrl accessToken verbose =
     (let b0 = trimTailingSlash baseUrl;
          b1 = (if prefix ''http://'' b0 then replace ''http://'' ''https://'' b0 else b0);
          b2 = (if \<not> prefix ''https://'' b1 then ''https://'' @ b1 else b1)
      in \<lparr>VERBOSE = verbose,
          BASE_URL = b2,
          API_URL = b2 @ API_PATH,
          AT = accessToken,
          config = \<lparr>cfg_headers = [(''PRIVATE-TOKEN'', accessToken)]\<rparr>\<rparr>)"

subsection \<open>Requests and logging\<close>

definition console_log :: "string \<Rightarrow> state \<Rightarrow> state" where
  "console_log line s = s\<lparr>console := console s @ [line]\<rparr>"

text \<open>\<^verbatim>\<open>if(this.VERBOSE) console.log(`M > ${url}`)\<close>\<close>

definition log_request :: "string \<Rightarrow> string \<Rightarrow> state \<Rightarrow> state" where
  "log_request m u s = (if VERBOSE (driver s) then console_log (m @ '' > '' @ u) s else s)"

definition axios_request :: "backend \<Rightarrow> request \<Rightarrow> state \<Rightarrow> (axios_error + response) \<times> state" where
  "axios_request srv rq s =
     (let s' = s\<lparr>sent := sent s @ [rq]\<rparr> in
      case srv (sent s) rq of
        HttpReply res \<Rightarrow>
          if 200 \<le> status res \<and> status res < 300 then (Inr res, s')
          else (Inl \<lparr>e_response = Some res\<rparr>, s')
      | NetworkFailure \<Rightarrow> (Inl \<lparr>e_response = None\<rparr>, s'))"

definition axios_get :: "backend \<Rightarrow> string \<Rightarrow> axios_config \<Rightarrow> state \<Rightarrow> (axios_error + response) \<times> state" where
  "axios_get srv u cfg =
     axios_request srv \<lparr>meth = GET, url = u, headers = cfg_headers cfg, body = None\<rparr>"

definition axios_post :: "backend \<Rightarrow> string \<Rightarrow> jsval \<Rightarrow> axios_config \<Rightarrow> state \<Rightarrow> (axios_error + response) \<times> state" where
  "axios_post srv u d cfg =
     axios_request srv \<lparr>meth = POST, url = u, headers = cfg_headers cfg, body = Some d\<rparr>"

definition axios_put :: "backend \<Rightarrow> string \<Rightarrow> jsval \<Rightarrow> axios_config \<Rightarrow> state \<Rightarrow> (axios_error + response) \<times> state" where
  "axios_put srv u d cfg =
     axios_request srv \<lparr>meth = PUT, url = u, headers = cfg_headers cfg, body = Some d\<rparr>"

definition original_error :: string where
  "original_error = [CHR 0x0A, CHR 0x0A] @ ''Original Error:'' @ [CHR 0x0A]"

text \<open>The test of the two existence checks:
  \<^verbatim>\<open>typeof e.response !== 'undefined' && e.response.status === 404\<close>\<close>

definition is_404 :: "axios_error \<Rightarrow> bool" where
  "is_404 e = (case e_response e of None \<Rightarrow> False | Some r \<Rightarrow> status r = 404)"

subsection \<open>The methods\<close>

text \<open>
  Identifiers, project ids, snippet ids, branch names and commit payloads are values of
  any kind, rendered by the template literals. A file path is a \<^typ>\<open>string\<close>: it is
  handed to \<^verbatim>\<open>trimSlashes\<close> first.
\<close>

definition getProjectUrl :: "GitlabApiDriver \<Rightarrow> jsval \<Rightarrow> error + string" where
  "getProjectUrl this identifier =
     (let resolvedIdentifier = resolveProjectIdentifier (BASE_URL this) identifier in
      case ident_id resolvedIdentifier of
        Some n \<Rightarrow> Inr (API_URL this @ ''/projects/'' @ to_string (Number n))
      | None \<Rightarrow>
          (case ident_path resolvedIdentifier of
             Some p \<Rightarrow> Inr (API_URL this @ ''/projects/'' @ encodeURIComponent (trimSlashes p))
           | None \<Rightarrow>
               Inl (InvalidIdentifier
                      (quoted (to_string identifier) @ '' is an invalid identifier for a project''))))"

definition getProject :: "backend \<Rightarrow> jsval \<Rightarrow> state \<Rightarrow> (error + jsval) \<times> state" where
  "getProject srv identifier s =
     (case getProjectUrl (driver s) identifier of
        Inl err \<Rightarrow> (Inl err, s)
      | Inr u \<Rightarrow>
          (let s1 = log_request ''GET'' u s;
               (r, s2) = axios_get srv u (config (driver s1)) s1
           in case r of
                Inr res \<Rightarrow> (Inr (data res), s2)
              | Inl e \<Rightarrow>
                  (Inl (GitlabApiError
                          (''Error requesting project identified by '' @ quoted (to_string identifier)
                           @ original_error) e), s2)))"

definition getBranches :: "backend \<Rightarrow> jsval \<Rightarrow> state \<Rightarrow> (error + jsval) \<times> state" where
  "getBranches srv projectIdentifier s =
     (case getProjectUrl (driver s) projectIdentifier of
        Inl err \<Rightarrow> (Inl err, s)
      | Inr pu \<Rightarrow>
          (let u = pu @ ''/repository/branches'';
               s1 = log_request ''GET'' u s;
               (r, s2) = axios_get srv u (config (driver s1)) s1
           in case r of
                Inr res \<Rightarrow> (Inr (data res), s2)
              | Inl e \<Rightarrow>
                  (Inl (GitlabApiError
                          (''Error requesting branchs for project identified by ''
                           @ quoted (to_string projectIdentifier) @ original_error) e), s2)))"

definition branchExists :: "backend \<Rightarrow> jsval \<Rightarrow> jsval \<Rightarrow> state \<Rightarrow> (error + bool) \<times> state" where
  "branchExists srv projectId branchName s =
     (let u = API_URL (driver s) @ ''/projects/'' @ to_string projectId
              @ ''/repository/branches/'' @ to_string branchName;
          s1 = log_request ''GET'' u s;
          (r, s2) = axios_get srv u (config (driver s1)) s1
      in case r of
           Inr res \<Rightarrow> (Inr (status res = 200), s2)
         | Inl e \<Rightarrow>
             if is_404 e then (Inr False, s2)
             else (Inl (GitlabApiError
                          (''Error requesting branch '' @ quoted (to_string branchName)
                           @ '' for project ID '' @ quoted (to_string projectId)
                           @ original_error) e), s2))"

definition fileExists :: "backend \<Rightarrow> jsval \<Rightarrow> jsval \<Rightarrow> string \<Rightarrow> state \<Rightarrow> (error + bool) \<times> state" where
  "fileExists srv projectId branchName filePath s =
     (let encodedFilePath = encodeURIComponent (trimSlashes filePath);
          u = API_URL (driver s) @ ''/projects/'' @ to_string projectId
              @ ''/repository/files/'' @ encodedFilePath @ ''?ref='' @ to_string branchName;
          s1 = log_request ''GET'' u s;
          (r, s2) = axios_get srv u (config (driver s1)) s1
      in case r of
           Inr res \<Rightarrow> (Inr (status res = 200), s2)
         | Inl e \<Rightarrow>
             if is_404 e then (Inr False, s2)
             else (Inl (GitlabApiError
                          (''Error requesting file '' @ quoted filePath
                           @ '' from branch '' @ quoted (to_string branchName)
                           @ '' for project ID '' @ quoted (to_string projectId)
                           @ original_error) e), s2))"

definition json_config :: "GitlabApiDriver \<Rightarrow> axios_config" where
  "json_config this =
     \<lparr>cfg_headers = [(''PRIVATE-TOKEN'', AT this), (''Content-Type'', ''application/json'')]\<rparr>"

definition postCommit :: "backend \<Rightarrow> jsval \<Rightarrow> jsval \<Rightarrow> state \<Rightarrow> (error + bool) \<times> state" where
  "postCommit srv projectId commitObject s =
     (let u = API_URL (driver s) @ ''/projects/'' @ to_string projectId @ ''/repository/commits'';
          cfg = json_config (driver s);
          s1 = log_request ''POST'' u s;
          (r, s2) = axios_post srv u commitObject cfg s1
      in case r of
           Inr res \<Rightarrow> (Inr (status res = 201), s2)
         | Inl e \<Rightarrow>
             (Inl (GitlabApiError
                     (''Error executing commit on project ID '' @ quoted (to_string projectId)
                      @ original_error) e), s2))"

definition postSnippetCommit :: "backend \<Rightarrow> jsval \<Rightarrow> jsval \<Rightarrow> state \<Rightarrow> (error + bool) \<times> state" where
  "postSnippetCommit srv snippetId commitObject s =
     (let u = API_URL (driver s) @ ''/snippets/'' @ to_string snippetId;
          cfg = json_config (driver s);
          s1 = log_request ''PUT'' u s;
          (r, s2) = axios_put srv u commitObject cfg s1
      in case r of
           Inr res \<Rightarrow> (Inr (status res = 201), s2)
         | Inl e \<Rightarrow>
             (Inl (GitlabApiError
                     (''Error executing commit on snippet ID '' @ quoted (to_string snippetId)
                      @ original_error) e), s2))"

text \<open>The first statement of \<^verbatim>\<open>getRawFile\<close>: an omitted branch name is replaced by
  \<^verbatim>\<open>(await this.getProject(projectIdentifier)).default_branch\<close>.\<close>

definition default_branch_name :: "backend \<Rightarrow> jsval \<Rightarrow> jsval \<Rightarrow> state \<Rightarrow> (error + jsval) \<times> state" where
  "default_branch_name srv projectIdentifier branchName s =
     (if branchName = Undefined then
        (case getProject srv projectIdentifier s of
           (Inl err, s1) \<Rightarrow> (Inl err, s1)
         | (Inr project, s1) \<Rightarrow> (get_prop project ''default_branch'', s1))
      else (Inr branchName, s))"

definition getRawFile :: "backend \<Rightarrow> jsval \<Rightarrow> string \<Rightarrow> jsval \<Rightarrow> state \<Rightarrow> (error + jsval) \<times> state" where
  "getRawFile srv projectIdentifier filePath branchName0 s =
     (case default_branch_name srv projectIdentifier branchName0 s of
        (Inl err, s0) \<Rightarrow> (Inl err, s0)
      | (Inr branchName, s0) \<Rightarrow>
          (let encodedFilePath = encodeURIComponent (trimSlashes filePath) in
           case getProjectUrl (driver s0) projectIdentifier of
             Inl err \<Rightarrow> (Inl err, s0)
           | Inr pu \<Rightarrow>
               (let u = pu @ ''/repository/files/'' @ encodedFilePath
                        @ ''/raw?ref='' @ to_string branchName;
                    s1 = log_request ''GET'' u s0;
                    (r, s2) = axios_get srv u (config (driver s1)) s1
                in case r of
                     Inr res \<Rightarrow>
                       if status res = 200 then (Inr (data res), s2) else (Inr Undefined, s2)
                   | Inl e \<Rightarrow>
                       (Inl (GitlabApiError
                               (''Error requesting raw file '' @ quoted filePath
                                @ '' from branch '' @ quoted (to_string branchName)
                                @ '' for project identified by ''
                                @ quoted (to_string projectIdentifier)
                                @ original_error) e), s2))))"

definition getVersion :: "backend \<Rightarrow> state \<Rightarrow> (error + jsval) \<times> state" where
  "getVersion srv s =
     (let u = API_URL (driver s) @ ''/version'';
          s1 = log_request ''GET'' u s;
          (r, s2) = axios_get srv u (config (driver s1)) s1
      in case r of
           Inr res \<Rightarrow> if status res = 200 then (Inr (data res), s2) else (Inr Null, s2)
         | Inl e \<Rightarrow>
             (Inl (GitlabApiError (''Error retrieving API version.'' @ original_error) e), s2))"

subsection \<open>Reading outcomes\<close>

text \<open>The status line of a reply, when the server answered at all.\<close>

fun reply_status :: "reply \<Rightarrow> nat option" where
  "reply_status (HttpReply res) = Some (status res)"
| "reply_status NetworkFailure = None"

fun raises_ApiError :: "error + 'a \<Rightarrow> bool" where
  "raises_ApiError (Inl err) = is_GitlabApiError err"
| "raises_ApiError (Inr v) = False"

fun raises_InvalidIdentifier :: "error + 'a \<Rightarrow> bool" where
  "raises_InvalidIdentifier (Inl err) = is_InvalidIdentifier err"
| "raises_InvalidIdentifier (Inr v) = False"

subsection \<open>Concrete inputs\<close>

text \<open>
  A driver built by the constructor, a state in which nothing has been sent or logged,
  servers that answer every request alike, a server that cannot be reached, a server that
  hosts project 42 with default branch \<^verbatim>\<open>main\<close>, and a commit payload.
\<close>

definition example_driver :: GitlabApiDriver where
  "example_driver = new_GitlabApiDriver ''http://example.com/'' ''secret'' False"

definition initial_state :: "GitlabApiDriver \<Rightarrow> state" where
  "initial_state d = \<lparr>driver = d, sent = [], console = []\<rparr>"

definition srv_status :: "nat \<Rightarrow> jsval \<Rightarrow> backend" where
  "srv_status n d hist rq = HttpReply \<lparr>status = n, data = d\<rparr>"

definition example_commit :: jsval where
  "example_commit =
     Object [(''branch'', String ''main''), (''commit_message'', String ''update'')]"

definition srv_down :: backend where
  "srv_down hist rq = NetworkFailure"

definition srv_project :: backend where
  "srv_project hist rq =
     (if url rq = ''https://example.com/api/v4/projects/42''
      then HttpReply \<lparr>status = 200, data = Object [(''default_branch'', String ''main'')]\<rparr>
      else HttpReply \<lparr>status = 200, data = String ''hello''\<rparr>)"

section \<open>Properties\<close>

subsection \<open>Auxiliary facts\<close>

lemma replace_prefix: "prefix pat s \<Longrightarrow> replace pat rep s = rep @ drop (length pat) s"
  by (cases s) auto

lemma BASE_URL_https: "prefix ''https://'' (BASE_URL (new_GitlabApiDriver b t v))"
  by (simp add: new_GitlabApiDriver_def Let_def replace_prefix)

lemma axios_request_sent: "sent (snd (axios_request srv rq s)) = sent s @ [rq]"
  by (simp add: axios_request_def Let_def split: reply.splits)

lemma axios_request_driver: "driver (snd (axios_request srv rq s)) = driver s"
  by (simp add: axios_request_def Let_def split: reply.splits)

lemma log_request_sent: "sent (log_request m u s) = sent s"
  by (simp add: log_request_def console_log_def)

lemma log_request_driver: "driver (log_request m u s) = driver s"
  by (simp add: log_request_def console_log_def)

lemma axios_request_fst:
  "fst (axios_request srv rq s) =
     (case srv (sent s) rq of
        HttpReply res \<Rightarrow> if 200 \<le> status res \<and> status res < 300 then Inr res else Inl \<lparr>e_response = Some res\<rparr>
      | NetworkFailure \<Rightarrow> Inl \<lparr>e_response = None\<rparr>)"
  by (simp add: axios_request_def Let_def split: reply.splits)

lemmas request_simps =
  Let_def split_beta axios_get_def axios_post_def axios_put_def axios_request_sent
  axios_request_driver axios_request_fst log_request_sent log_request_driver is_404_def

lemmas eval_simps =
  initial_state_def example_driver_def new_GitlabApiDriver_def Let_def API_PATH_def
  trimTailingSlash_def trimSlashes_def trimLeadingSlash_def encodeURIComponent_def
  encode_char_def unreserved_def hex_digit_def show_int_def digit_char_def
  resolveProjectIdentifier_def integer_valued_def is_digit_def parse_int_def parse_nat_def
  quoted_def

lemma getProject_driver: "driver (snd (getProject srv i s)) = driver s"
  by (simp add: getProject_def request_simps split: sum.splits)

lemma getBranches_driver: "driver (snd (getBranches srv i s)) = driver s"
  by (simp add: getBranches_def request_simps split: sum.splits)

lemma branchExists_driver: "driver (snd (branchExists srv p b s)) = driver s"
  by (simp add: branchExists_def request_simps split: sum.splits)

lemma fileExists_driver: "driver (snd (fileExists srv p b f s)) = driver s"
  by (simp add: fileExists_def request_simps split: sum.splits)

lemma postCommit_driver: "driver (snd (postCommit srv p c s)) = driver s"
  by (simp add: postCommit_def request_simps split: sum.splits)

lemma postSnippetCommit_driver: "driver (snd (postSnippetCommit srv p c s)) = driver s"
  by (simp add: postSnippetCommit_def request_simps split: sum.splits)

lemma getVersion_driver: "driver (snd (getVersion srv s)) = driver s"
  by (simp add: getVersion_def request_simps split: sum.splits)

lemma default_branch_name_driver: "driver (snd (default_branch_name srv i b s)) = driver s"
  using getProject_driver [of srv i s]
  by (auto simp: default_branch_name_def split: prod.splits sum.splits)

lemma getRawFile_driver: "driver (snd (getRawFile srv i f b s)) = driver s"
  using default_branch_name_driver [of srv i b s]
  by (auto simp: getRawFile_def request_simps split: prod.splits sum.splits)

subsection \<open>The constructor\<close>

text \<open>
  Claim C3. A driver constructed with base URL \<^verbatim>\<open>http://example.com/\<close> holds the
  base URL \<^verbatim>\<open>https://example.com\<close>: the trailing slash is removed and the scheme is
  upgraded. A driver constructed with \<^verbatim>\<open>example.com\<close> holds
  \<^verbatim>\<open>https://example.com\<close> as well. For every base URL, the API root is the
  normalised base URL followed by \<^verbatim>\<open>/api/v4\<close>.
\<close>

theorem constructor_normalises_base_url:
  "BASE_URL (new_GitlabApiDriver ''http://example.com/'' t v) = ''https://example.com''
   \<and> BASE_URL (new_GitlabApiDriver ''example.com'' t v) = ''https://example.com''
   \<and> API_URL (new_GitlabApiDriver b t v) = BASE_URL (new_GitlabApiDriver b t v) @ ''/api/v4''"
  by (simp add: new_GitlabApiDriver_def trimTailingSlash_def API_PATH_def Let_def)

subsection \<open>Existence of a branch\<close>

text \<open>
  Claim C1, as amended. For every project id and branch name, \<open>branchExists\<close> sends one
  request, \<^verbatim>\<open>GET {apiRoot}/projects/{projectId}/repository/branches/{branchName}\<close>
  with the driver's headers. It returns true exactly when the reply has status 200. It
  returns false exactly when the reply has status 404 or a 2xx status other than 200. It
  raises \<open>GitlabApiError\<close> exactly when the connection fails or the reply has a status
  outside 2xx other than 404.
\<close>

theorem branchExists_policy:
  "(let rq = \<lparr>meth = GET,
              url = API_URL (driver s) @ ''/projects/'' @ to_string projectId
                    @ ''/repository/branches/'' @ to_string branchName,
              headers = cfg_headers (config (driver s)), body = None\<rparr>;
        r = reply_status (srv (sent s) rq);
        out = branchExists srv projectId branchName s
    in sent (snd out) = sent s @ [rq]
     \<and> (fst out = Inr True \<longleftrightarrow> r = Some 200)
     \<and> (fst out = Inr False \<longleftrightarrow> (\<exists>n. r = Some n \<and> (n = 404 \<or> (200 < n \<and> n < 300))))
     \<and> (raises_ApiError (fst out) \<longleftrightarrow>
          (r = None \<or> (\<exists>n. r = Some n \<and> n \<noteq> 404 \<and> (n < 200 \<or> 300 \<le> n)))))"
proof -
  let ?rq = "\<lparr>meth = GET,
              url = API_URL (driver s) @ ''/projects/'' @ to_string projectId
                    @ ''/repository/branches/'' @ to_string branchName,
              headers = cfg_headers (config (driver s)), body = None\<rparr>"
  show ?thesis
  proof (cases "srv (sent s) ?rq")
    case (HttpReply res)
    then show ?thesis
      by (auto simp: branchExists_def request_simps)
  next
    case NetworkFailure
    then show ?thesis
      by (auto simp: branchExists_def request_simps)
  qed
qed

text \<open>
  The policy at the statuses 200, 404, 204 and 500 and for a server that cannot be
  reached.
\<close>

theorem branchExists_policy_witness:
  "fst (branchExists (srv_status 200 Null) (Number 1) (String ''main'')
          (initial_state example_driver)) = Inr True
   \<and> fst (branchExists (srv_status 404 Null) (Number 1) (String ''main'')
          (initial_state example_driver)) = Inr False
   \<and> fst (branchExists (srv_status 204 Null) (Number 1) (String ''main'')
          (initial_state example_driver)) = Inr False
   \<and> raises_ApiError (fst (branchExists (srv_status 500 Null) (Number 1) (String ''main'')
          (initial_state example_driver)))
   \<and> raises_ApiError (fst (branchExists srv_down (Number 1) (String ''main'')
          (initial_state example_driver)))"
  using branchExists_policy [of "initial_state example_driver" "Number 1" "String ''main''" "srv_status 200 Null"]
        branchExists_policy [of "initial_state example_driver" "Number 1" "String ''main''" "srv_status 404 Null"]
        branchExists_policy [of "initial_state example_driver" "Number 1" "String ''main''" "srv_status 204 Null"]
        branchExists_policy [of "initial_state example_driver" "Number 1" "String ''main''" "srv_status 500 Null"]
        branchExists_policy [of "initial_state example_driver" "Number 1" "String ''main''" "srv_down"]
  by (simp add: Let_def srv_status_def srv_down_def)

text \<open>
  The claim as first stated has \<open>branchExists\<close> return false exactly when the status is
  404. A reply with status 204 is a success of the HTTP library, the comparison with 200
  fails, and the method returns false although the status is not 404.
\<close>

theorem branchExists_false_on_204:
  "\<not> (fst (branchExists (srv_status 204 Null) (Number 1) (String ''main'')
              (initial_state example_driver)) = Inr False
       \<longleftrightarrow> reply_status (srv_status 204 Null []
              \<lparr>meth = GET, url = ''https://example.com/api/v4/projects/1/repository/branches/main'',
               headers = [(''PRIVATE-TOKEN'', ''secret'')], body = None\<rparr>) = Some 404)"
  by (simp add: branchExists_def request_simps srv_status_def initial_state_def example_driver_def
        new_GitlabApiDriver_def)

subsection \<open>Commits\<close>

text \<open>
  Claim C2. For every project id and commit payload, \<open>postCommit\<close> sends one request,
  \<^verbatim>\<open>POST {apiRoot}/projects/{projectId}/repository/commits\<close>, with the payload as
  body and the JSON content type among the headers. It returns true exactly when the reply
  has status 201, false exactly when the reply has another 2xx status (200, say), and raises
  \<open>GitlabApiError\<close> exactly when the reply has a status outside 2xx (500, say) or the
  connection fails.
\<close>

theorem postCommit_contract:
  "(let rq = \<lparr>meth = POST,
              url = API_URL (driver s) @ ''/projects/'' @ to_string projectId
                    @ ''/repository/commits'',
              headers = [(''PRIVATE-TOKEN'', AT (driver s)), (''Content-Type'', ''application/json'')],
              body = Some commitObject\<rparr>;
        r = reply_status (srv (sent s) rq);
        out = postCommit srv projectId commitObject s
    in sent (snd out) = sent s @ [rq]
     \<and> (fst out = Inr True \<longleftrightarrow> r = Some 201)
     \<and> (fst out = Inr False \<longleftrightarrow> (\<exists>n. r = Some n \<and> 200 \<le> n \<and> n < 300 \<and> n \<noteq> 201))
     \<and> (raises_ApiError (fst out) \<longleftrightarrow> (r = None \<or> (\<exists>n. r = Some n \<and> (n < 200 \<or> 300 \<le> n)))))"
proof -
  let ?rq = "\<lparr>meth = POST,
              url = API_URL (driver s) @ ''/projects/'' @ to_string projectId
                    @ ''/repository/commits'',
              headers = [(''PRIVATE-TOKEN'', AT (driver s)), (''Content-Type'', ''application/json'')],
              body = Some commitObject\<rparr>"
  show ?thesis
  proof (cases "srv (sent s) ?rq")
    case (HttpReply res)
    then show ?thesis
      by (auto simp: postCommit_def json_config_def request_simps)
  next
    case NetworkFailure
    then show ?thesis
      by (auto simp: postCommit_def json_config_def request_simps)
  qed
qed

text \<open>
  The contract at the statuses 201, 200 and 500 and for a server that cannot be
  reached.
\<close>

theorem postCommit_contract_witness:
  "fst (postCommit (srv_status 201 Null) (Number 7) example_commit (initial_state example_driver)) = Inr True
   \<and> fst (postCommit (srv_status 200 Null) (Number 7) example_commit (initial_state example_driver)) = Inr False
   \<and> raises_ApiError (fst (postCommit (srv_status 500 Null) (Number 7) example_commit (initial_state example_driver)))
   \<and> raises_ApiError (fst (postCommit srv_down (Number 7) example_commit (initial_state example_driver)))"
  using postCommit_contract [of "initial_state example_driver" "Number 7" example_commit "srv_status 201 Null"]
        postCommit_contract [of "initial_state example_driver" "Number 7" example_commit "srv_status 200 Null"]
        postCommit_contract [of "initial_state example_driver" "Number 7" example_commit "srv_status 500 Null"]
        postCommit_contract [of "initial_state example_driver" "Number 7" example_commit "srv_down"]
  by (simp add: Let_def srv_status_def srv_down_def)

text \<open>
  Claim C8. For every snippet id and commit payload, \<open>postSnippetCommit\<close> sends one
  request, \<^verbatim>\<open>PUT {apiRoot}/snippets/{snippetId}\<close>, with the payload as body and the
  JSON content type among the headers, and maps the reply as \<open>postCommit\<close> does: true
  exactly on status 201, false exactly on another 2xx status, \<open>GitlabApiError\<close> exactly
  on a status outside 2xx or a failed connection.
\<close>

theorem postSnippetCommit_contract:
  "(let rq = \<lparr>meth = PUT,
              url = API_URL (driver s) @ ''/snippets/'' @ to_string snippetId,
              headers = [(''PRIVATE-TOKEN'', AT (driver s)), (''Content-Type'', ''application/json'')],
              body = Some commitObject\<rparr>;
        r = reply_status (srv (sent s) rq);
        out = postSnippetCommit srv snippetId commitObject s
    in sent (snd out) = sent s @ [rq]
     \<and> (fst out = Inr True \<longleftrightarrow> r = Some 201)
     \<and> (fst out = Inr False \<longleftrightarrow> (\<exists>n. r = Some n \<and> 200 \<le> n \<and> n < 300 \<and> n \<noteq> 201))
     \<and> (raises_ApiError (fst out) \<longleftrightarrow> (r = None \<or> (\<exists>n. r = Some n \<and> (n < 200 \<or> 300 \<le> n)))))"
proof -
  let ?rq = "\<lparr>meth = PUT,
              url = API_URL (driver s) @ ''/snippets/'' @ to_string snippetId,
              headers = [(''PRIVATE-TOKEN'', AT (driver s)), (''Content-Type'', ''application/json'')],
              body = Some commitObject\<rparr>"
  show ?thesis
  proof (cases "srv (sent s) ?rq")
    case (HttpReply res)
    then show ?thesis
      by (auto simp: postSnippetCommit_def json_config_def request_simps)
  next
    case NetworkFailure
    then show ?thesis
      by (auto simp: postSnippetCommit_def json_config_def request_simps)
  qed
qed

text \<open>
  The contract of the snippet commit at the statuses 201, 200 and 500 and for a server
  that cannot be reached.
\<close>

theorem postSnippetCommit_contract_witness:
  "fst (postSnippetCommit (srv_status 201 Null) (Number 9) example_commit (initial_state example_driver)) = Inr True
   \<and> fst (postSnippetCommit (srv_status 200 Null) (Number 9) example_commit (initial_state example_driver)) = Inr False
   \<and> raises_ApiError (fst (postSnippetCommit (srv_status 500 Null) (Number 9) example_commit (initial_state example_driver)))
   \<and> raises_ApiError (fst (postSnippetCommit srv_down (Number 9) example_commit (initial_state example_driver)))"
  using postSnippetCommit_contract [of "initial_state example_driver" "Number 9" example_commit "srv_status 201 Null"]
        postSnippetCommit_contract [of "initial_state example_driver" "Number 9" example_commit "srv_status 200 Null"]
        postSnippetCommit_contract [of "initial_state example_driver" "Number 9" example_commit "srv_status 500 Null"]
        postSnippetCommit_contract [of "initial_state example_driver" "Number 9" example_commit "srv_down"]
  by (simp add: Let_def srv_status_def srv_down_def)

subsection \<open>Existence of a file\<close>

text \<open>
  Claim C7, as amended. For every project id, branch name and file path, \<open>fileExists\<close>
  sends one request,
  \<^verbatim>\<open>GET {apiRoot}/projects/{projectId}/repository/files/{encodedFilePath}?ref={branchName}\<close>,
  where the encoded file path is the percent-encoding of the file path after
  \<open>trimSlashes\<close>. The reply is mapped as in \<open>branchExists\<close>: true exactly on status
  200, false exactly on status 404 or a 2xx status other than 200, \<open>GitlabApiError\<close>
  exactly on a failed connection or a status outside 2xx other than 404.
\<close>

theorem fileExists_policy:
  "(let rq = \<lparr>meth = GET,
              url = API_URL (driver s) @ ''/projects/'' @ to_string projectId
                    @ ''/repository/files/'' @ encodeURIComponent (trimSlashes filePath)
                    @ ''?ref='' @ to_string branchName,
              headers = cfg_headers (config (driver s)), body = None\<rparr>;
        r = reply_status (srv (sent s) rq);
        out = fileExists srv projectId branchName filePath s
    in sent (snd out) = sent s @ [rq]
     \<and> (fst out = Inr True \<longleftrightarrow> r = Some 200)
     \<and> (fst out = Inr False \<longleftrightarrow> (\<exists>n. r = Some n \<and> (n = 404 \<or> (200 < n \<and> n < 300))))
     \<and> (raises_ApiError (fst out) \<longleftrightarrow>
          (r = None \<or> (\<exists>n. r = Some n \<and> n \<noteq> 404 \<and> (n < 200 \<or> 300 \<le> n)))))"
proof -
  let ?rq = "\<lparr>meth = GET,
              url = API_URL (driver s) @ ''/projects/'' @ to_string projectId
                    @ ''/repository/files/'' @ encodeURIComponent (trimSlashes filePath)
                    @ ''?ref='' @ to_string branchName,
              headers = cfg_headers (config (driver s)), body = None\<rparr>"
  show ?thesis
  proof (cases "srv (sent s) ?rq")
    case (HttpReply res)
    then show ?thesis
      by (auto simp: fileExists_def request_simps)
  next
    case NetworkFailure
    then show ?thesis
      by (auto simp: fileExists_def request_simps)
  qed
qed

text \<open>
  The request for the file path \<^verbatim>\<open>/src/a b.txt/\<close> and the policy at the statuses
  200, 404 and 500 and for a server that cannot be reached.
\<close>

theorem fileExists_policy_witness:
  "map url (sent (snd (fileExists (srv_status 200 Null) (Number 1) (String ''main'') ''/src/a b.txt/''
          (initial_state example_driver))))
     = [''https://example.com/api/v4/projects/1/repository/files/src%2Fa%20b.txt?ref=main'']
   \<and> fst (fileExists (srv_status 200 Null) (Number 1) (String ''main'') ''/src/a b.txt/''
          (initial_state example_driver)) = Inr True
   \<and> fst (fileExists (srv_status 404 Null) (Number 1) (String ''main'') ''/src/a b.txt/''
          (initial_state example_driver)) = Inr False
   \<and> raises_ApiError (fst (fileExists (srv_status 500 Null) (Number 1) (String ''main'') ''/src/a b.txt/''
          (initial_state example_driver)))
   \<and> raises_ApiError (fst (fileExists srv_down (Number 1) (String ''main'') ''/src/a b.txt/''
          (initial_state example_driver)))"
  using fileExists_policy [of "initial_state example_driver" "Number 1" "''/src/a b.txt/''" "String ''main''" "srv_status 200 Null"]
        fileExists_policy [of "initial_state example_driver" "Number 1" "''/src/a b.txt/''" "String ''main''" "srv_status 404 Null"]
        fileExists_policy [of "initial_state example_driver" "Number 1" "''/src/a b.txt/''" "String ''main''" "srv_status 500 Null"]
        fileExists_policy [of "initial_state example_driver" "Number 1" "''/src/a b.txt/''" "String ''main''" "srv_down"]
  apply (simp add: Let_def srv_status_def srv_down_def)
  apply (simp add: initial_state_def example_driver_def new_GitlabApiDriver_def Let_def API_PATH_def
          trimTailingSlash_def trimSlashes_def trimLeadingSlash_def encodeURIComponent_def
          encode_char_def unreserved_def hex_digit_def show_int_def digit_char_def)
  done

text \<open>
  The claim as first stated has \<open>fileExists\<close> return false exactly when the status is
  404. A reply with status 204 makes it return false as well.
\<close>

theorem fileExists_false_on_204:
  "\<not> (fst (fileExists (srv_status 204 Null) (Number 1) (String ''main'') ''/src/a b.txt/''
              (initial_state example_driver)) = Inr False
       \<longleftrightarrow> reply_status (srv_status 204 Null []
              \<lparr>meth = GET,
               url = ''https://example.com/api/v4/projects/1/repository/files/src%2Fa%20b.txt?ref=main'',
               headers = [(''PRIVATE-TOKEN'', ''secret'')], body = None\<rparr>) = Some 404)"
  by (simp add: fileExists_def request_simps srv_status_def initial_state_def example_driver_def
        new_GitlabApiDriver_def)

subsection \<open>The URL of a project\<close>

text \<open>
  Claim C4. For every identifier, \<open>getProjectUrl\<close> returns
  \<^verbatim>\<open>{apiRoot}/projects/{id}\<close> when the identifier resolves to the numeric-id form
  (\<^verbatim>\<open>R/projects/42\<close> for the id 42 and the API root \<open>R\<close>), returns
  \<^verbatim>\<open>{apiRoot}/projects/{encodedPath}\<close>, the percent-encoding of the slash-trimmed
  path, when it resolves to the path form (\<^verbatim>\<open>R/projects/a%2Fb%20c\<close> for the path
  \<^verbatim>\<open>a/b c\<close>), and fails with the invalid identifier error otherwise.
\<close>

theorem getProjectUrl_by_variant:
  "(let r = resolveProjectIdentifier (BASE_URL this) identifier;
        out = getProjectUrl this identifier
    in (\<forall>n. ident_id r = Some n \<longrightarrow> out = Inr (API_URL this @ ''/projects/'' @ show_int n))
     \<and> (ident_id r = Some 42 \<longrightarrow> out = Inr (API_URL this @ ''/projects/42''))
     \<and> (\<forall>p. ident_id r = None \<and> ident_path r = Some p \<longrightarrow>
            out = Inr (API_URL this @ ''/projects/'' @ encodeURIComponent (trimSlashes p)))
     \<and> (ident_id r = None \<and> ident_path r = Some ''a/b c'' \<longrightarrow>
            out = Inr (API_URL this @ ''/projects/a%2Fb%20c''))
     \<and> (ident_id r = None \<and> ident_path r = None \<longrightarrow> raises_InvalidIdentifier out))"
proof -
  have enc: "encodeURIComponent (trimSlashes ''a/b c'') = ''a%2Fb%20c''"
    by (simp add: trimSlashes_def trimLeadingSlash_def trimTailingSlash_def
          encodeURIComponent_def encode_char_def unreserved_def hex_digit_def)
  have num: "show_int 42 = ''42''"
    by (simp add: show_int_def digit_char_def)
  show ?thesis
    using enc num by (auto simp: getProjectUrl_def Let_def)
qed

text \<open>
  The three cases on the example driver: a number, a path with slashes at both ends, a
  URL under the base URL, and \<^verbatim>\<open>undefined\<close>.
\<close>

theorem getProjectUrl_by_variant_witness:
  "getProjectUrl example_driver (Number 42) = Inr ''https://example.com/api/v4/projects/42''
   \<and> getProjectUrl example_driver (String ''/a/b c/'') = Inr ''https://example.com/api/v4/projects/a%2Fb%20c''
   \<and> getProjectUrl example_driver (String ''https://example.com/group/proj/'')
        = Inr ''https://example.com/api/v4/projects/group%2Fproj''
   \<and> raises_InvalidIdentifier (getProjectUrl example_driver Undefined)"
  using getProjectUrl_by_variant [of example_driver "Number 42"]
        getProjectUrl_by_variant [of example_driver "String ''/a/b c/''"]
        getProjectUrl_by_variant [of example_driver "String ''https://example.com/group/proj/''"]
        getProjectUrl_by_variant [of example_driver "Undefined"]
  by (simp add: eval_simps)

text \<open>
  With the resolver of section 4.1, the two examples on any driver the constructor
  builds: its base URL starts with \<^verbatim>\<open>https://\<close>, so the path \<^verbatim>\<open>a/b c\<close> is
  never mistaken for a URL under it.
\<close>

lemma getProjectUrl_constructed:
  "getProjectUrl (new_GitlabApiDriver b t v) (Number 42)
     = Inr (API_URL (new_GitlabApiDriver b t v) @ ''/projects/42'')
   \<and> getProjectUrl (new_GitlabApiDriver b t v) (String ''a/b c'')
     = Inr (API_URL (new_GitlabApiDriver b t v) @ ''/projects/a%2Fb%20c'')"
proof -
  have "\<not> prefix (BASE_URL (new_GitlabApiDriver b t v)) ''a/b c''"
  proof
    assume "prefix (BASE_URL (new_GitlabApiDriver b t v)) ''a/b c''"
    with BASE_URL_https [of b t v] have "prefix ''https://'' ''a/b c''"
      by (rule prefix_order.trans)
    then show False by simp
  qed
  then show ?thesis
    by (simp add: getProjectUrl_def Let_def resolveProjectIdentifier_def integer_valued_def
          is_digit_def trimSlashes_def trimLeadingSlash_def trimTailingSlash_def
          encodeURIComponent_def encode_char_def unreserved_def hex_digit_def show_int_def
          digit_char_def)
qed

text \<open>
  Claim C6. When an identifier resolves to neither the numeric-id form nor the path
  form, \<open>getProjectUrl\<close>, \<open>getProject\<close>, \<open>getBranches\<close> and \<open>getRawFile\<close>
  (with or without a branch name) all fail with the \<open>InvalidIdentifier\<close> error itself,
  not a \<open>GitlabApiError\<close> around it, and return the state they were given: no request
  has been sent and nothing has been logged.
\<close>

theorem invalid_identifier_sends_nothing:
  assumes "ident_id (resolveProjectIdentifier (BASE_URL (driver s)) identifier) = None"
      and "ident_path (resolveProjectIdentifier (BASE_URL (driver s)) identifier) = None"
  shows "(let err = InvalidIdentifier
                      (quoted (to_string identifier) @ '' is an invalid identifier for a project'')
          in getProjectUrl (driver s) identifier = Inl err
           \<and> getProject srv identifier s = (Inl err, s)
           \<and> getBranches srv identifier s = (Inl err, s)
           \<and> getRawFile srv identifier filePath branchName s = (Inl err, s))"
proof -
  have u: "getProjectUrl (driver s) identifier
             = Inl (InvalidIdentifier
                      (quoted (to_string identifier) @ '' is an invalid identifier for a project''))"
    using assms by (simp add: getProjectUrl_def Let_def)
  have p: "getProject srv identifier s
             = (Inl (InvalidIdentifier
                      (quoted (to_string identifier) @ '' is an invalid identifier for a project'')), s)"
    using u by (simp add: getProject_def)
  have b: "getBranches srv identifier s
             = (Inl (InvalidIdentifier
                      (quoted (to_string identifier) @ '' is an invalid identifier for a project'')), s)"
    using u by (simp add: getBranches_def)
  have r: "getRawFile srv identifier filePath branchName s
             = (Inl (InvalidIdentifier
                      (quoted (to_string identifier) @ '' is an invalid identifier for a project'')), s)"
    using u p by (simp add: getRawFile_def default_branch_name_def)
  show ?thesis
    using u p b r by (simp add: Let_def)
qed

text \<open>
  The identifier \<^verbatim>\<open>true\<close> resolves to neither form: the three methods fail in the
  initial state and leave it as it is.
\<close>

theorem invalid_identifier_sends_nothing_witness:
  "getProject (srv_status 200 Null) (Boolean True) (initial_state example_driver)
     = (Inl (InvalidIdentifier (quoted ''true'' @ '' is an invalid identifier for a project'')),
        initial_state example_driver)
   \<and> getBranches (srv_status 200 Null) (Boolean True) (initial_state example_driver)
     = (Inl (InvalidIdentifier (quoted ''true'' @ '' is an invalid identifier for a project'')),
        initial_state example_driver)
   \<and> getRawFile (srv_status 200 Null) (Boolean True) ''README.md'' Undefined (initial_state example_driver)
     = (Inl (InvalidIdentifier (quoted ''true'' @ '' is an invalid identifier for a project'')),
        initial_state example_driver)
   \<and> sent (snd (getRawFile (srv_status 200 Null) (Boolean True) ''README.md'' (String ''main'')
                  (initial_state example_driver))) = []"
  using invalid_identifier_sends_nothing
          [of "initial_state example_driver" "Boolean True" "srv_status 200 Null" "''README.md''" Undefined]
        invalid_identifier_sends_nothing
          [of "initial_state example_driver" "Boolean True" "srv_status 200 Null" "''README.md''" "String ''main''"]
  by (simp add: resolveProjectIdentifier_def Let_def) (simp add: initial_state_def)

subsection \<open>Raw file content\<close>

text \<open>
  Claim C5. Let the identifier resolve to the project URL \<open>pu\<close>, let the server answer
  the project request with a 2xx status and a body whose \<^verbatim>\<open>default_branch\<close> is
  \<open>branch\<close>. Then \<open>getRawFile\<close> without a branch name sends exactly two requests,
  in this order: \<^verbatim>\<open>GET {projectUrl}\<close>, then
  \<^verbatim>\<open>GET {projectUrl}/repository/files/{encodedFilePath}/raw?ref={branch}\<close>. When the
  second reply has status 200 the method returns its body; when it has another 2xx status
  the method returns \<^verbatim>\<open>undefined\<close>.
\<close>

theorem getRawFile_default_branch:
  assumes "getProjectUrl (driver s) identifier = Inr pu"
      and "srv (sent s) \<lparr>meth = GET, url = pu, headers = cfg_headers (config (driver s)), body = None\<rparr>
             = HttpReply \<lparr>status = n1, data = project\<rparr>"
      and "200 \<le> n1 \<and> n1 < 300"
      and "get_prop project ''default_branch'' = Inr branch"
  shows "(let rq1 = \<lparr>meth = GET, url = pu, headers = cfg_headers (config (driver s)), body = None\<rparr>;
              rq2 = \<lparr>meth = GET,
                     url = pu @ ''/repository/files/'' @ encodeURIComponent (trimSlashes filePath)
                           @ ''/raw?ref='' @ to_string branch,
                     headers = cfg_headers (config (driver s)), body = None\<rparr>;
              out = getRawFile srv identifier filePath Undefined s
          in sent (snd out) = sent s @ [rq1, rq2]
           \<and> (\<forall>n d. srv (sent s @ [rq1]) rq2 = HttpReply \<lparr>status = n, data = d\<rparr>
                      \<and> 200 \<le> n \<and> n < 300
                  \<longrightarrow> fst out = Inr (if n = 200 then d else Undefined)))"
proof -
  let ?rq1 = "\<lparr>meth = GET, url = pu, headers = cfg_headers (config (driver s)), body = None\<rparr>"
  let ?s1 = "(log_request ''GET'' pu s)\<lparr>sent := sent s @ [?rq1]\<rparr>"
  have p: "getProject srv identifier s = (Inr project, ?s1)"
    using assms(1,2,3)
    by (simp add: getProject_def Let_def axios_get_def axios_request_def log_request_sent
          log_request_driver)
  have d: "default_branch_name srv identifier Undefined s = (Inr branch, ?s1)"
    using p assms(4) by (simp add: default_branch_name_def)
  have drv: "driver ?s1 = driver s"
    by (simp add: log_request_driver)
  show ?thesis
    using d assms(1)
    by (auto simp: getRawFile_def drv request_simps split: reply.splits)
qed

text \<open>
  Project 42 on the example server: the two requests, and the content returned.
\<close>

theorem getRawFile_default_branch_witness:
  "map url (sent (snd (getRawFile srv_project (Number 42) ''/docs/read me.md'' Undefined
                         (initial_state example_driver))))
     = [''https://example.com/api/v4/projects/42'',
        ''https://example.com/api/v4/projects/42/repository/files/docs%2Fread%20me.md/raw?ref=main'']
   \<and> fst (getRawFile srv_project (Number 42) ''/docs/read me.md'' Undefined
            (initial_state example_driver)) = Inr (String ''hello'')"
  using getRawFile_default_branch
          [of "initial_state example_driver" "Number 42" "''https://example.com/api/v4/projects/42''"
              srv_project 200 "Object [(''default_branch'', String ''main'')]" "String ''main''"
              "''/docs/read me.md''"]
  by (simp add: getProjectUrl_def srv_project_def eval_simps)

subsection \<open>The driver object is read-only\<close>

text \<open>
  Claim C9. Every method returns the driver object it was given: base URL, API root,
  access token, header table and verbose flag are the same after the call as before,
  whatever the arguments, the server's replies and the outcome. (\<open>getProjectUrl\<close>, the
  ninth operation, is a function of the driver and returns no state.)
\<close>

theorem driver_is_never_modified:
  "driver (snd (getProject srv identifier s)) = driver s
   \<and> driver (snd (getBranches srv identifier s)) = driver s
   \<and> driver (snd (branchExists srv projectId branchName s)) = driver s
   \<and> driver (snd (fileExists srv projectId branchName filePath s)) = driver s
   \<and> driver (snd (postCommit srv projectId commitObject s)) = driver s
   \<and> driver (snd (postSnippetCommit srv snippetId commitObject s)) = driver s
   \<and> driver (snd (getRawFile srv identifier filePath branchName s)) = driver s
   \<and> driver (snd (getVersion srv s)) = driver s"
  by (simp add: getProject_driver getBranches_driver branchExists_driver fileExists_driver
        postCommit_driver postSnippetCommit_driver getRawFile_driver getVersion_driver)

subsection \<open>What is percent-encoded\<close>

text \<open>
  Claim C10, as amended. A branch name given as a string is embedded verbatim, whatever
  characters it contains: at the end of the path in the URL of \<open>branchExists\<close>, and as
  the \<^verbatim>\<open>ref\<close> parameter in the URLs of \<open>fileExists\<close> and \<open>getRawFile\<close>. The
  components that are percent-encoded are the file path and the path form of a project
  identifier.
\<close>

theorem branch_name_is_verbatim:
  "map url (sent (snd (branchExists srv projectId (String b) s)))
     = map url (sent s) @ [API_URL (driver s) @ ''/projects/'' @ to_string projectId
                           @ ''/repository/branches/'' @ b]
   \<and> map url (sent (snd (fileExists srv projectId (String b) filePath s)))
     = map url (sent s) @ [API_URL (driver s) @ ''/projects/'' @ to_string projectId
                           @ ''/repository/files/'' @ encodeURIComponent (trimSlashes filePath)
                           @ ''?ref='' @ b]
   \<and> (\<forall>pu. getProjectUrl (driver s) identifier = Inr pu \<longrightarrow>
          map url (sent (snd (getRawFile srv identifier filePath (String b) s)))
            = map url (sent s) @ [pu @ ''/repository/files/''
                                  @ encodeURIComponent (trimSlashes filePath)
                                  @ ''/raw?ref='' @ b])
   \<and> (\<forall>p. ident_id (resolveProjectIdentifier (BASE_URL (driver s)) identifier) = None
           \<and> ident_path (resolveProjectIdentifier (BASE_URL (driver s)) identifier) = Some p \<longrightarrow>
          getProjectUrl (driver s) identifier
            = Inr (API_URL (driver s) @ ''/projects/'' @ encodeURIComponent (trimSlashes p)))"
proof -
  have 1: "map url (sent (snd (branchExists srv projectId (String b) s)))
     = map url (sent s) @ [API_URL (driver s) @ ''/projects/'' @ to_string projectId
                           @ ''/repository/branches/'' @ b]"
    by (simp add: branchExists_def request_simps split: sum.splits)
  have 2: "map url (sent (snd (fileExists srv projectId (String b) filePath s)))
     = map url (sent s) @ [API_URL (driver s) @ ''/projects/'' @ to_string projectId
                           @ ''/repository/files/'' @ encodeURIComponent (trimSlashes filePath)
                           @ ''?ref='' @ b]"
    by (simp add: fileExists_def request_simps split: sum.splits)
  have 3: "map url (sent (snd (getRawFile srv identifier filePath (String b) s)))
            = map url (sent s) @ [pu @ ''/repository/files/''
                                  @ encodeURIComponent (trimSlashes filePath)
                                  @ ''/raw?ref='' @ b]"
    if "getProjectUrl (driver s) identifier = Inr pu" for pu
    using that
    by (simp add: getRawFile_def default_branch_name_def request_simps split: sum.splits)
  have 4: "getProjectUrl (driver s) identifier
            = Inr (API_URL (driver s) @ ''/projects/'' @ encodeURIComponent (trimSlashes p))"
    if "ident_id (resolveProjectIdentifier (BASE_URL (driver s)) identifier) = None
        \<and> ident_path (resolveProjectIdentifier (BASE_URL (driver s)) identifier) = Some p" for p
    using that by (simp add: getProjectUrl_def Let_def)
  show ?thesis
    using 1 2 3 4 by blast
qed

text \<open>
  The branch name \<^verbatim>\<open>feat/x#1?y\<close> appears literally in the three URLs.
\<close>

theorem branch_name_is_verbatim_witness:
  "map url (sent (snd (branchExists srv_down (Number 1) (String ''feat/x#1?y'')
                         (initial_state example_driver))))
     = [''https://example.com/api/v4/projects/1/repository/branches/feat/x#1?y'']
   \<and> map url (sent (snd (fileExists srv_down (Number 1) (String ''feat/x#1?y'') ''src/a?b''
                         (initial_state example_driver))))
     = [''https://example.com/api/v4/projects/1/repository/files/src%2Fa%3Fb?ref=feat/x#1?y'']
   \<and> map url (sent (snd (getRawFile srv_down (String ''g/p'') ''src/a?b'' (String ''feat/x#1?y'')
                         (initial_state example_driver))))
     = [''https://example.com/api/v4/projects/g%2Fp/repository/files/src%2Fa%3Fb/raw?ref=feat/x#1?y'']"
  using branch_name_is_verbatim
          [of srv_down "Number 1" "''feat/x#1?y''" "initial_state example_driver" "''src/a?b''"
              "String ''g/p''"]
  by (simp add: getProjectUrl_def eval_simps)

text \<open>
  The claim as first stated has the file path as the only percent-encoded component of
  every URL. In the URL that \<open>getRawFile\<close> builds for the project path
  \<^verbatim>\<open>a/b c\<close>, the project path is percent-encoded too.
\<close>

theorem project_path_is_encoded:
  "map url (sent (snd (getRawFile (srv_status 200 (String ''x'')) (String ''a/b c'') ''f.txt''
                         (String ''main'') (initial_state example_driver))))
     = [''https://example.com/api/v4/projects/a%2Fb%20c/repository/files/f.txt/raw?ref=main'']
   \<and> map url (sent (snd (getRawFile (srv_status 200 (String ''x'')) (String ''a/b c'') ''f.txt''
                         (String ''main'') (initial_state example_driver))))
     \<noteq> [''https://example.com/api/v4/projects/a/b c/repository/files/f.txt/raw?ref=main'']"
  by (simp add: getRawFile_def default_branch_name_def getProjectUrl_def request_simps
        srv_status_def eval_simps)

end
